theory Spec2Isabelle
  imports Complex_Main "HOL-Library.Char_ord" "HOL-Library.List_Lexorder"
begin

section \<open>Data model: cells, frames, results\<close>

text \<open>
  The program (\<^verbatim>\<open>src/app.py\<close>) pushes a pandas DataFrame through eight
  transformer classes. A frame is modelled column-wise, as pandas stores it: the row labels
  (\<open>index\<close>) and an ordered association list from column name to the column's cells.
  A cell is a number, a string or the missing value. Floating-point numbers are idealised
  as reals: arithmetic is exact. A column is of numeric dtype when it holds no string.
  Exceptions are values of type \<open>error\<close>; a transform returns either an error or
  the frame it returns together with the lines it printed.
\<close>

datatype cell = Num real | Str string | NaN

datatype error = KeyError | TypeError | ValueError

record frame =
  index :: "nat list"
  cols :: "(string \<times> cell list) list"

type_synonym outcome = "error + (frame \<times> string list)"

type_synonym transformer = "frame \<Rightarrow> outcome"

definition columns :: "frame \<Rightarrow> string list" where
  "columns df = map fst (cols df)"

text \<open>\<^verbatim>\<open>set(fts).issubset(df.columns)\<close>\<close>

definition issubset :: "string list \<Rightarrow> string list \<Rightarrow> bool" where
  "issubset fts cs = (set fts \<subseteq> set cs)"

text \<open>\<^verbatim>\<open>df[ft]\<close>: the column, or KeyError.\<close>

definition get_column :: "frame \<Rightarrow> string \<Rightarrow> error + cell list" where
  "get_column df ft = (case map_of (cols df) ft of None \<Rightarrow> Inl KeyError | Some xs \<Rightarrow> Inr xs)"

text \<open>\<^verbatim>\<open>df[fts]\<close>: the listed columns in the listed order, or KeyError.\<close>

fun get_columns :: "frame \<Rightarrow> string list \<Rightarrow> error + cell list list" where
  "get_columns df [] = Inr []"
| "get_columns df (ft # fts) =
     (case get_column df ft of
        Inl e \<Rightarrow> Inl e
      | Inr xs \<Rightarrow> (case get_columns df fts of Inl e \<Rightarrow> Inl e | Inr xss \<Rightarrow> Inr (xs # xss)))"

text \<open>\<^verbatim>\<open>df[ft] = vs\<close>: overwrites the column, or appends a new one.\<close>

definition set_column :: "string \<Rightarrow> cell list \<Rightarrow> frame \<Rightarrow> frame" where
  "set_column ft vs df =
     (if ft \<in> set (columns df)
      then df\<lparr>cols := map (\<lambda>(n, xs). if n = ft then (n, vs) else (n, xs)) (cols df)\<rparr>
      else df\<lparr>cols := cols df @ [(ft, vs)]\<rparr>)"

text \<open>Boolean-mask selection \<^verbatim>\<open>df[mask]\<close>: the rows whose mask entry is True, labels kept.\<close>

definition select :: "bool list \<Rightarrow> 'a list \<Rightarrow> 'a list" where
  "select keep xs = map snd (filter fst (zip keep xs))"

definition filter_rows :: "bool list \<Rightarrow> frame \<Rightarrow> frame" where
  "filter_rows keep df =
     \<lparr>index = select keep (index df), cols = map (\<lambda>(n, xs). (n, select keep xs)) (cols df)\<rparr>"

text \<open>The non-missing numbers of a column, and whether it holds a string (object dtype).\<close>

fun nums :: "cell list \<Rightarrow> real list" where
  "nums [] = []"
| "nums (Num x # cs) = x # nums cs"
| "nums (c # cs) = nums cs"

fun is_str :: "cell \<Rightarrow> bool" where
  "is_str (Str s) = True"
| "is_str c = False"

fun is_num :: "cell \<Rightarrow> bool" where
  "is_num (Num x) = True"
| "is_num c = False"

definition has_str :: "cell list \<Rightarrow> bool" where
  "has_str xs = list_ex is_str xs"

definition msg_features :: string where
  "msg_features = ''One or more features are not in the dataframe''"

definition target :: string where
  "target = ''Loan Sanction Amount (USD)''"

section \<open>DropFeatures\<close>

definition feature_to_drop :: "string list" where
  "feature_to_drop = [''Customer ID'', ''Name'', ''Type of Employment'', ''Property ID'']"

text \<open>\<^verbatim>\<open>df.drop(fts, axis=1)\<close>\<close>

definition drop_columns :: "string list \<Rightarrow> frame \<Rightarrow> frame" where
  "drop_columns fts df = df\<lparr>cols := filter (\<lambda>(n, xs). n \<notin> set fts) (cols df)\<rparr>"

definition DropFeatures_transform :: transformer where
  "DropFeatures_transform df =
     (if issubset feature_to_drop (columns df)
      then Inr (drop_columns feature_to_drop df, [])
      else Inr (df, [msg_features]))"

section \<open>OutlierImputer\<close>

definition feat_with_outliers :: "string list" where
  "feat_with_outliers =
     [''Income (USD)'', ''Loan Amount Request (USD)'', ''Current Loan Expenses (USD)'',
      ''Property Age'', ''Property Price'']"

text \<open>
  \<^verbatim>\<open>Series.quantile(a / b)\<close> with pandas' default linear interpolation: missing
  values are skipped, the position \<open>(n - 1) * a / b\<close> in the sorted values is
  interpolated between its neighbours; no value gives NaN (\<open>None\<close>).
\<close>

definition quantile :: "nat \<Rightarrow> nat \<Rightarrow> cell list \<Rightarrow> real option" where
  "quantile a b xs =
     (let s = sort (nums xs); n = length s in
      if n = 0 then None
      else let h = a * (n - 1); lo = h div b; fr = h mod b in
        if fr = 0 then Some (s ! lo)
        else Some (s ! lo + (s ! (lo + 1) - s ! lo) * (real fr / real b)))"

text \<open>
  One entry of \<^verbatim>\<open>(df < Q1 - 1.5 * IQR) | (df > Q3 + 1.5 * IQR)\<close>: a comparison with
  a missing value on either side is False.
\<close>

fun outlier_cell :: "real option \<Rightarrow> real option \<Rightarrow> cell \<Rightarrow> bool" where
  "outlier_cell (Some q1) (Some q3) (Num x) =
     (x < q1 - 1.5 * (q3 - q1) \<or> x > q3 + 1.5 * (q3 - q1))"
| "outlier_cell q1 q3 c = False"

definition outlier_column :: "cell list \<Rightarrow> bool list" where
  "outlier_column xs = map (outlier_cell (quantile 1 4 xs) (quantile 3 4 xs)) xs"

text \<open>\<^verbatim>\<open>.any(axis=1)\<close> over boolean columns of \<open>n\<close> rows.\<close>

fun any_axis1 :: "nat \<Rightarrow> bool list list \<Rightarrow> bool list" where
  "any_axis1 n [] = replicate n False"
| "any_axis1 n (m # ms) = map (\<lambda>(a, b). a \<or> b) (zip m (any_axis1 n ms))"

definition OutlierImputer_transform :: transformer where
  "OutlierImputer_transform df =
     (if issubset feat_with_outliers (columns df)
      then (case get_columns df feat_with_outliers of
              Inl e \<Rightarrow> Inl e
            | Inr sub \<Rightarrow>
                if list_ex has_str sub then Inl TypeError
                else Inr (filter_rows
                            (map Not (any_axis1 (length (index df)) (map outlier_column sub)))
                            df, []))
      else Inr (df, [msg_features]))"

section \<open>DropUncommonProfession\<close>

definition profession_list :: "string list" where
  "profession_list = [''Student'', ''Unemployed'', ''Businessman'']"

text \<open>\<^verbatim>\<open>Series.isin(values)\<close> for a list of strings.\<close>

fun isin :: "string list \<Rightarrow> cell \<Rightarrow> bool" where
  "isin vs (Str s) = (s \<in> set vs)"
| "isin vs c = False"

definition DropUncommonProfession_transform :: transformer where
  "DropUncommonProfession_transform df =
     (if ''Profession'' \<in> set (columns df)
      then (case get_column df ''Profession'' of
              Inl e \<Rightarrow> Inl e
            | Inr xs \<Rightarrow> Inr (filter_rows (map (\<lambda>c. \<not> isin profession_list c) xs) df, []))
      else Inr (df, [''Profession feature is not in the dataframe'']))"

section \<open>MissingValueImputer\<close>

definition mode_imputed_ft :: "string list" where
  "mode_imputed_ft =
     [''Gender'', ''Income Stability'', ''Dependents'', ''Has Active Credit Card'',
      ''Property Location'']"

definition median_imputed_ft :: "string list" where
  "median_imputed_ft =
     [''Income (USD)'', ''Current Loan Expenses (USD)'', ''Credit Score'', ''Property Age'']"

text \<open>\<^verbatim>\<open>df.dropna(axis=0, subset=[ft])\<close>: KeyError when the column is absent.\<close>

definition dropna_subset :: "string \<Rightarrow> frame \<Rightarrow> error + frame" where
  "dropna_subset ft df =
     (case get_column df ft of
        Inl e \<Rightarrow> Inl KeyError
      | Inr xs \<Rightarrow> Inr (filter_rows (map (\<lambda>c. c \<noteq> NaN) xs) df))"

text \<open>
  \<^verbatim>\<open>Series.mode()\<close>: the most frequent non-missing values, sorted when they are all
  numbers or all strings; pandas leaves values it cannot sort in the order it met them.
\<close>

fun strs :: "cell list \<Rightarrow> string list" where
  "strs [] = []"
| "strs (Str s # cs) = s # strs cs"
| "strs (c # cs) = strs cs"

fun uniq :: "'a list \<Rightarrow> 'a list" where
  "uniq [] = []"
| "uniq (x # xs) = x # filter (\<lambda>y. y \<noteq> x) (uniq xs)"

definition sort_cells :: "cell list \<Rightarrow> cell list" where
  "sort_cells cs =
     (if list_all is_num cs then map Num (sort (nums cs))
      else if list_all is_str cs then map Str (sort (strs cs))
      else cs)"

fun max_count :: "cell list \<Rightarrow> cell list \<Rightarrow> nat" where
  "max_count vs [] = 0"
| "max_count vs (u # us) = max (count_list vs u) (max_count vs us)"

definition series_mode :: "cell list \<Rightarrow> cell list" where
  "series_mode xs =
     (let vs = filter (\<lambda>c. c \<noteq> NaN) xs; us = uniq vs in
      sort_cells (filter (\<lambda>u. count_list vs u = max_count vs us) us))"

text \<open>\<^verbatim>\<open>Series.fillna(v)\<close>\<close>

definition fillna :: "cell \<Rightarrow> cell list \<Rightarrow> cell list" where
  "fillna v xs = map (\<lambda>c. if c = NaN then v else c) xs"

text \<open>\<^verbatim>\<open>Series.median()\<close>: TypeError on a column holding strings, NaN when no value.\<close>

definition series_median :: "cell list \<Rightarrow> error + cell" where
  "series_median xs =
     (if has_str xs then Inl TypeError
      else let s = sort (nums xs); n = length s in
        if n = 0 then Inr NaN
        else if odd n then Inr (Num (s ! (n div 2)))
        else Inr (Num ((s ! (n div 2 - 1) + s ! (n div 2)) / 2)))"

text \<open>The two loops; \<^verbatim>\<open>df[ft].mode()[0]\<close> is a KeyError when the mode is empty.\<close>

fun fill_modes :: "string list \<Rightarrow> frame \<Rightarrow> error + frame" where
  "fill_modes [] df = Inr df"
| "fill_modes (ft # fts) df =
     (case get_column df ft of
        Inl e \<Rightarrow> Inl e
      | Inr xs \<Rightarrow>
          (case series_mode xs of
             [] \<Rightarrow> Inl KeyError
           | the_mode # ms \<Rightarrow> fill_modes fts (set_column ft (fillna the_mode xs) df)))"

fun fill_medians :: "string list \<Rightarrow> frame \<Rightarrow> error + frame" where
  "fill_medians [] df = Inr df"
| "fill_medians (ft # fts) df =
     (case get_column df ft of
        Inl e \<Rightarrow> Inl e
      | Inr xs \<Rightarrow>
          (case series_median xs of
             Inl e \<Rightarrow> Inl e
           | Inr the_median \<Rightarrow> fill_medians fts (set_column ft (fillna the_median xs) df)))"

definition MissingValueImputer_transform :: transformer where
  "MissingValueImputer_transform df =
     (if issubset (mode_imputed_ft @ median_imputed_ft) (columns df)
      then (case dropna_subset target df of
              Inl e \<Rightarrow> Inl e
            | Inr df1 \<Rightarrow>
                (case fill_modes mode_imputed_ft df1 of
                   Inl e \<Rightarrow> Inl e
                 | Inr df2 \<Rightarrow>
                     (case fill_medians median_imputed_ft df2 of
                        Inl e \<Rightarrow> Inl e
                      | Inr df3 \<Rightarrow> Inr (df3, []))))
      else Inr (df, [msg_features]))"

section \<open>ValueImputer\<close>

definition feat_with_999_val :: "string list" where
  "feat_with_999_val =
     [''Co-Applicant'', ''Current Loan Expenses (USD)'', ''Loan Sanction Amount (USD)'',
      ''Property Price'']"

text \<open>
  \<^verbatim>\<open>df[ft].replace(-999.000, 0, inplace=True, regex=True)\<close>: the pattern is a number,
  not a regular expression, so pandas replaces the cells equal to it; the column selected
  from the frame shares the frame's data, which the in-place replacement updates.
\<close>

definition replace_999 :: "cell list \<Rightarrow> cell list" where
  "replace_999 xs = map (\<lambda>c. if c = Num (- 999) then Num 0 else c) xs"

fun replace_loop :: "string list \<Rightarrow> frame \<Rightarrow> error + frame" where
  "replace_loop [] df = Inr df"
| "replace_loop (ft # fts) df =
     (case get_column df ft of
        Inl e \<Rightarrow> Inl e
      | Inr xs \<Rightarrow> replace_loop fts (set_column ft (replace_999 xs) df))"

definition ValueImputer_transform :: transformer where
  "ValueImputer_transform df =
     (if issubset feat_with_999_val (columns df)
      then (case replace_loop feat_with_999_val df of
              Inl e \<Rightarrow> Inl e
            | Inr df' \<Rightarrow> Inr (df', []))
      else Inr (df, [msg_features]))"

section \<open>SkewnessHandler\<close>

definition col_with_skewness :: "string list" where
  "col_with_skewness =
     [''Income (USD)'', ''Loan Amount Request (USD)'', ''Current Loan Expenses (USD)'',
      ''Property Age'']"

text \<open>\<^verbatim>\<open>np.cbrt\<close>: the real cube root, defined for negative numbers; NaN stays NaN.\<close>

fun cbrt :: "cell \<Rightarrow> cell" where
  "cbrt (Num x) = Num (root 3 x)"
| "cbrt c = c"

text \<open>\<^verbatim>\<open>df[fts] = values\<close>: each listed column is overwritten by the matching one.\<close>

fun set_columns :: "string list \<Rightarrow> cell list list \<Rightarrow> frame \<Rightarrow> frame" where
  "set_columns (ft # fts) (vs # vss) df = set_columns fts vss (set_column ft vs df)"
| "set_columns fts vss df = df"

definition SkewnessHandler_transform :: transformer where
  "SkewnessHandler_transform df =
     (if issubset col_with_skewness (columns df)
      then (case get_columns df col_with_skewness of
              Inl e \<Rightarrow> Inl e
            | Inr sub \<Rightarrow>
                if list_ex has_str sub then Inl TypeError
                else Inr (set_columns col_with_skewness (map (map cbrt) sub) df, []))
      else Inr (df, [''One or more skewed columns are not found'']))"

section \<open>MinMaxWithFeatNames\<close>

definition min_max_scaler_ft :: "string list" where
  "min_max_scaler_ft =
     [''Age'', ''Income (USD)'', ''Loan Amount Request (USD)'', ''Current Loan Expenses (USD)'',
      ''Credit Score'', ''Property Age'', ''Property Price'']"

fun list_min :: "real list \<Rightarrow> real" where
  "list_min [] = 0"
| "list_min (x # xs) = fold min xs x"

fun list_max :: "real list \<Rightarrow> real" where
  "list_max [] = 0"
| "list_max (x # xs) = fold max xs x"

text \<open>
  \<^verbatim>\<open>MinMaxScaler().fit_transform\<close> on one column, feature range (0, 1): the minimum
  and the maximum skip missing values; \<open>scale_ = 1 / range\<close> with a zero range replaced
  by 1, \<open>min_ = 0 - data_min * scale_\<close>, and each value becomes \<open>x * scale_ + min_\<close>.
  Missing values stay missing.
\<close>

definition scale_of :: "cell list \<Rightarrow> real" where
  "scale_of xs =
     (let data_range = list_max (nums xs) - list_min (nums xs) in
      1 / (if data_range = 0 then 1 else data_range))"

definition min_of :: "cell list \<Rightarrow> real" where
  "min_of xs = 0 - list_min (nums xs) * scale_of xs"

fun scale_cell :: "real \<Rightarrow> real \<Rightarrow> cell \<Rightarrow> cell" where
  "scale_cell sc mn (Num x) = Num (x * sc + mn)"
| "scale_cell sc mn c = c"

definition min_max_column :: "cell list \<Rightarrow> cell list" where
  "min_max_column xs = map (scale_cell (scale_of xs) (min_of xs)) xs"

text \<open>The scaler refuses an array with no row, and cannot convert a string to a number.\<close>

definition MinMaxWithFeatNames_transform :: transformer where
  "MinMaxWithFeatNames_transform df =
     (if issubset min_max_scaler_ft (columns df)
      then (case get_columns df min_max_scaler_ft of
              Inl e \<Rightarrow> Inl e
            | Inr sub \<Rightarrow>
                if index df = [] \<or> list_ex has_str sub then Inl ValueError
                else Inr (set_columns min_max_scaler_ft (map min_max_column sub) df, []))
      else Inr (df, [msg_features]))"

section \<open>OneHotWithFeatNames\<close>

definition one_hot_enc_ft :: "string list" where
  "one_hot_enc_ft =
     [''Gender'', ''Profession'', ''Location'', ''Expense Type 1'', ''Expense Type 2'',
      ''Has Active Credit Card'', ''Property Location'', ''Income Stability'']"

text \<open>
  The categories \<^verbatim>\<open>OneHotEncoder().fit\<close> finds in one column: the distinct values,
  sorted, a missing value last as a category of its own; a column that mixes numbers and
  strings is refused with a TypeError.
\<close>

definition categories :: "cell list \<Rightarrow> error + cell list" where
  "categories xs =
     (if list_ex is_num xs \<and> list_ex is_str xs then Inl TypeError
      else Inr (map Num (sort (remdups (nums xs))) @ map Str (sort (remdups (strs xs)))
                @ (if NaN \<in> set xs then [NaN] else [])))"

text \<open>
  \<^verbatim>\<open>get_feature_names_out\<close>: \<open><column>_<str(category)>\<close>. The text Python
  prints for a floating-point number is a parameter, \<open>fmt\<close>.
\<close>

fun category_name :: "(real \<Rightarrow> string) \<Rightarrow> cell \<Rightarrow> string" where
  "category_name fmt (Str s) = s"
| "category_name fmt (Num x) = fmt x"
| "category_name fmt NaN = ''nan''"

definition indicator :: "cell \<Rightarrow> cell \<Rightarrow> cell" where
  "indicator cat c = (if c = cat then Num 1 else Num 0)"

definition one_hot_group ::
  "(real \<Rightarrow> string) \<Rightarrow> string \<Rightarrow> cell list \<Rightarrow> cell list \<Rightarrow> (string \<times> cell list) list" where
  "one_hot_group fmt ft cats xs =
     map (\<lambda>cat. (ft @ ''_'' @ category_name fmt cat, map (indicator cat) xs)) cats"

text \<open>The inner function \<^verbatim>\<open>one_hot_enc\<close>: the indicator columns of the listed columns.\<close>

fun one_hot_enc ::
  "(real \<Rightarrow> string) \<Rightarrow> frame \<Rightarrow> string list \<Rightarrow> error + (string \<times> cell list) list" where
  "one_hot_enc fmt df [] = Inr []"
| "one_hot_enc fmt df (ft # fts) =
     (case get_column df ft of
        Inl e \<Rightarrow> Inl e
      | Inr xs \<Rightarrow>
          (case categories xs of
             Inl e \<Rightarrow> Inl e
           | Inr cats \<Rightarrow>
               (case one_hot_enc fmt df fts of
                  Inl e \<Rightarrow> Inl e
                | Inr rest \<Rightarrow> Inr (one_hot_group fmt ft cats xs @ rest))))"

text \<open>The inner function \<^verbatim>\<open>concat_with_rest\<close>.\<close>

definition concat_with_rest ::
  "frame \<Rightarrow> (string \<times> cell list) list \<Rightarrow> string list \<Rightarrow> frame" where
  "concat_with_rest df one_hot_enc_df fts =
     df\<lparr>cols := one_hot_enc_df @ filter (\<lambda>(n, xs). n \<notin> set fts) (cols df)\<rparr>"

definition OneHotWithFeatNames_transform :: "(real \<Rightarrow> string) \<Rightarrow> transformer" where
  "OneHotWithFeatNames_transform fmt df =
     (if issubset one_hot_enc_ft (columns df)
      then (if index df = [] then Inl ValueError
            else (case one_hot_enc fmt df one_hot_enc_ft of
                    Inl e \<Rightarrow> Inl e
                  | Inr one_hot_enc_df \<Rightarrow>
                      Inr (concat_with_rest df one_hot_enc_df one_hot_enc_ft, [])))
      else Inr (df, [msg_features]))"

section \<open>The pipeline\<close>

text \<open>
  \<^verbatim>\<open>Pipeline(steps).fit_transform(df)\<close>: every step is fitted (\<open>fit\<close> returns
  the transformer itself and learns nothing) and its \<open>transform\<close> is applied to what the
  step before returned; an exception ends the run.
\<close>

fun Pipeline_fit_transform :: "(string \<times> transformer) list \<Rightarrow> transformer" where
  "Pipeline_fit_transform [] df = Inr (df, [])"
| "Pipeline_fit_transform ((name, t) # steps) df =
     (case t df of
        Inl e \<Rightarrow> Inl e
      | Inr (df', out) \<Rightarrow>
          (case Pipeline_fit_transform steps df' of
             Inl e \<Rightarrow> Inl e
           | Inr (df'', out') \<Rightarrow> Inr (df'', out @ out')))"

definition full_pipeline :: "(real \<Rightarrow> string) \<Rightarrow> transformer" where
  "full_pipeline fmt df =
     Pipeline_fit_transform
       [(''drop features'', DropFeatures_transform),
        (''outlier remover'', OutlierImputer_transform),
        (''drop uncommon profession'', DropUncommonProfession_transform),
        (''missing value imputer'', MissingValueImputer_transform),
        (''-999 value imputer'', ValueImputer_transform),
        (''skewness handler'', SkewnessHandler_transform),
        (''min max scaler'', MinMaxWithFeatNames_transform),
        (''one hot encoder'', OneHotWithFeatNames_transform fmt)]
       df"

section \<open>Specification-side notions\<close>

text \<open>Applying one function to each of the listed columns, every other column untouched.\<close>

definition apply_to_columns :: "string list \<Rightarrow> (cell list \<Rightarrow> cell list) \<Rightarrow> frame \<Rightarrow> frame" where
  "apply_to_columns fts f df =
     df\<lparr>cols := map (\<lambda>(n, xs). if n \<in> set fts then (n, f xs) else (n, xs)) (cols df)\<rparr>"


text \<open>One step of a sequential composition: the transform consumes what the step before
  returned, an error ends the run, the printed lines accumulate.\<close>

definition then_step :: "outcome \<Rightarrow> transformer \<Rightarrow> outcome" where
  "then_step r t =
     (case r of
        Inl e \<Rightarrow> Inl e
      | Inr (df, out) \<Rightarrow>
          (case t df of Inl e \<Rightarrow> Inl e | Inr (df', out') \<Rightarrow> Inr (df', out @ out')))"

text \<open>A frame with the nine columns MissingValueImputer declares and no target column.\<close>

definition df_no_target :: frame where
  "df_no_target =
     \<lparr>index = [0],
      cols = [(''Gender'', [Str ''M'']), (''Income Stability'', [Str ''Low'']),
              (''Dependents'', [Num 1]), (''Has Active Credit Card'', [Str ''Active'']),
              (''Property Location'', [Str ''Rural'']), (''Income (USD)'', [Num 1000]),
              (''Current Loan Expenses (USD)'', [Num 100]), (''Credit Score'', [Num 700]),
              (''Property Age'', [Num 1000])]\<rparr>"

text \<open>A frame is well formed when every column has one cell per row label.\<close>

definition wf_frame :: "frame \<Rightarrow> bool" where
  "wf_frame df = list_all (\<lambda>(n, xs). length xs = length (index df)) (cols df)"












text \<open>No listed column mixes numbers and strings (each is present).\<close>

definition uniform_columns :: "string list \<Rightarrow> frame \<Rightarrow> bool" where
  "uniform_columns fts df =
     list_all (\<lambda>ft. case get_column df ft of
                      Inl e \<Rightarrow> False
                    | Inr xs \<Rightarrow> \<not> (list_ex is_num xs \<and> list_ex is_str xs)) fts"

text \<open>
  One-hot encoding in the specification's words. The group \<open>g\<close> of columns encodes
  the column \<open>xs\<close> named \<open>ft\<close> when: it has as many columns as \<open>xs\<close> has
  distinct values; each of its columns is the 0/1 indicator of a value observed in
  \<open>xs\<close> and is named \<open><ft>_<value>\<close>; and at every row exactly one of its columns
  holds 1.
\<close>

definition is_indicator_of ::
  "(real \<Rightarrow> string) \<Rightarrow> string \<Rightarrow> cell list \<Rightarrow> string \<times> cell list \<Rightarrow> cell \<Rightarrow> bool" where
  "is_indicator_of fmt ft xs col cat =
     (fst col = ft @ ''_'' @ category_name fmt cat \<and>
      snd col = map (\<lambda>c. if c = cat then Num 1 else Num 0) xs)"

definition ones_at :: "(string \<times> cell list) list \<Rightarrow> nat \<Rightarrow> nat" where
  "ones_at g i = length (filter (\<lambda>col. snd col ! i = Num 1) g)"

definition encodes :: "(real \<Rightarrow> string) \<Rightarrow> string \<Rightarrow> cell list \<Rightarrow> (string \<times> cell list) list \<Rightarrow> bool" where
  "encodes fmt ft xs g =
     (length g = length (remdups xs) \<and>
      list_all (\<lambda>col. list_ex (is_indicator_of fmt ft xs col) xs) g \<and>
      list_all (\<lambda>col. list_all (\<lambda>y. y = Num 0 \<or> y = Num 1) (snd col)) g \<and>
      list_all (\<lambda>i. ones_at g i = 1) [0..<length xs])"

text \<open>Three rows over the eight categorical columns and one untouched column.\<close>

definition df_cat :: frame where
  "df_cat =
     \<lparr>index = [0, 1, 2],
      cols = [(''Age'', [Num 30, Num 40, Num 50]),
              (''Gender'', [Str ''M'', Str ''F'', Str ''M'']),
              (''Profession'', [Str ''Working'', Str ''Working'', Str ''Pensioner'']),
              (''Location'', [Str ''Rural'', Str ''Urban'', Str ''Rural'']),
              (''Expense Type 1'', [Str ''N'', Str ''Y'', Str ''N'']),
              (''Expense Type 2'', [Str ''Y'', Str ''Y'', Str ''Y'']),
              (''Has Active Credit Card'', [Str ''Active'', NaN, Str ''Inactive'']),
              (''Property Location'', [Str ''Urban'', Str ''Urban'', Str ''Rural'']),
              (''Income Stability'', [Str ''Low'', Str ''High'', Str ''Low''])]\<rparr>"

definition df_cat_encoded :: frame where
  "df_cat_encoded =
     \<lparr>index = [0, 1, 2],
      cols = [(''Gender_F'', [Num 0, Num 1, Num 0]),
              (''Gender_M'', [Num 1, Num 0, Num 1]),
              (''Profession_Pensioner'', [Num 0, Num 0, Num 1]),
              (''Profession_Working'', [Num 1, Num 1, Num 0]),
              (''Location_Rural'', [Num 1, Num 0, Num 1]),
              (''Location_Urban'', [Num 0, Num 1, Num 0]),
              (''Expense Type 1_N'', [Num 1, Num 0, Num 1]),
              (''Expense Type 1_Y'', [Num 0, Num 1, Num 0]),
              (''Expense Type 2_Y'', [Num 1, Num 1, Num 1]),
              (''Has Active Credit Card_Active'', [Num 1, Num 0, Num 0]),
              (''Has Active Credit Card_Inactive'', [Num 0, Num 0, Num 1]),
              (''Has Active Credit Card_nan'', [Num 0, Num 1, Num 0]),
              (''Property Location_Rural'', [Num 0, Num 0, Num 1]),
              (''Property Location_Urban'', [Num 1, Num 1, Num 0]),
              (''Income Stability_High'', [Num 0, Num 1, Num 0]),
              (''Income Stability_Low'', [Num 1, Num 0, Num 1]),
              (''Age'', [Num 30, Num 40, Num 50])]\<rparr>"

text \<open>
  What one round of the two loops of MissingValueImputer does to a column: the missing
  values become the first mode, or the median.
\<close>

definition mode_fill :: "cell list \<Rightarrow> cell list" where
  "mode_fill xs = (case series_mode xs of [] \<Rightarrow> xs | the_mode # ms \<Rightarrow> fillna the_mode xs)"

definition median_fill :: "cell list \<Rightarrow> cell list" where
  "median_fill xs = (case series_median xs of Inl e \<Rightarrow> xs | Inr the_median \<Rightarrow> fillna the_median xs)"




text \<open>
  Four raw records over the 24 columns of the training data: a student, a missing gender
  and income, a missing target, a sentinel co-applicant.
\<close>

definition df_raw :: frame where
  "df_raw =
     \<lparr>index = [0, 1, 2, 3],
      cols = [(''Customer ID'', [Str ''C-1'', Str ''C-2'', Str ''C-3'', Str ''C-4'']),
              (''Name'', [Str ''Ann'', Str ''Bob'', Str ''Cyd'', Str ''Dee'']),
              (''Gender'', [Str ''F'', NaN, Str ''F'', Str ''M'']),
              (''Age'', [Num 30, Num 40, Num 50, Num 60]),
              (''Income (USD)'', [Num 1000, NaN, Num 2000, Num 3000]),
              (''Income Stability'', [Str ''Low'', Str ''Low'', Str ''High'', Str ''Low'']),
              (''Profession'', [Str ''Working'', Str ''Student'', Str ''Working'', Str ''Pensioner'']),
              (''Type of Employment'', [Str ''Sales'', NaN, Str ''Core'', NaN]),
              (''Location'', [Str ''Rural'', Str ''Urban'', Str ''Rural'', Str ''Urban'']),
              (''Loan Amount Request (USD)'', [Num 5000, Num 6000, Num 7000, Num 8000]),
              (''Current Loan Expenses (USD)'', [Num 100, Num 200, Num (- 999), Num 400]),
              (''Expense Type 1'', [Str ''N'', Str ''Y'', Str ''N'', Str ''N'']),
              (''Expense Type 2'', [Str ''Y'', Str ''Y'', Str ''N'', Str ''Y'']),
              (''Dependents'', [Num 1, Num 2, NaN, Num 2]),
              (''Credit Score'', [Num 700, Num 710, Num 720, NaN]),
              (''No. of Defaults'', [Num 0, Num 0, Num 1, Num 0]),
              (''Has Active Credit Card'', [Str ''Active'', NaN, Str ''Inactive'', Str ''Active'']),
              (''Property ID'', [Num 11, Num 12, Num 13, Num 14]),
              (''Property Age'', [Num 1000, Num 1100, Num 2000, Num 3000]),
              (''Property Type'', [Num 1, Num 2, Num 3, Num 4]),
              (''Property Location'', [Str ''Rural'', Str ''Rural'', Str ''Urban'', Str ''Urban'']),
              (''Co-Applicant'', [Num 1, Num (- 999), Num 0, Num 1]),
              (''Property Price'', [Num 9000, Num 9500, Num 9900, Num (- 999)]),
              (''Loan Sanction Amount (USD)'', [Num 4000, Num 3000, NaN, Num 0])]\<rparr>"

section \<open>The app: the query record and the prediction input\<close>

text \<open>The values of the form's widgets. The sliders give integers.\<close>

record form =
  input_gender :: string
  input_age :: int
  input_income :: int
  income_stab :: string
  input_professions :: string
  location :: string
  input_current_loan_amt :: int
  exp_type_one :: string
  exp_type_two :: string
  dependents_count :: int
  credit_score :: int
  loan_default_input :: string
  cc_status_input :: string
  property_age_slider :: int
  prop_price :: int
  property_type_input :: int
  prop_location :: string
  co_applicant :: string
  loan_amount_req :: int

text \<open>\<^verbatim>\<open>{"Yes": 1, "No": 0}.get(s)\<close>: None, a missing value, for any other key.\<close>

definition yes_no_dict :: "string \<Rightarrow> cell" where
  "yes_no_dict s = (if s = ''Yes'' then Num 1 else if s = ''No'' then Num 0 else NaN)"

text \<open>The slider value times 365.25.\<close>

definition property_age :: "form \<Rightarrow> real" where
  "property_age f = of_int (property_age_slider f) * 365.25"

text \<open>The list \<^verbatim>\<open>profile_to_predict\<close>, in the order of the training columns.\<close>

definition profile_to_predict :: "form \<Rightarrow> cell list" where
  "profile_to_predict f =
     [Str '''',
      Str '''',
      Str (take 1 (input_gender f)),
      Num (of_int (input_age f)),
      Num (of_int (input_income f)),
      Str (income_stab f),
      Str (input_professions f),
      Str '''',
      Str (location f),
      Num (of_int (loan_amount_req f)),
      Num (of_int (input_current_loan_amt f)),
      Str (take 1 (exp_type_one f)),
      Str (take 1 (exp_type_two f)),
      Num (of_int (dependents_count f)),
      Num (of_int (credit_score f)),
      yes_no_dict (loan_default_input f),
      Str (cc_status_input f),
      Num 0,
      Num (property_age f),
      Num (of_int (property_type_input f)),
      Str (prop_location f),
      yes_no_dict (co_applicant f),
      Num (of_int (prop_price f)),
      Num 0]"

text \<open>
  \<^verbatim>\<open>pd.DataFrame([profile_to_predict], columns=train_copy.columns)\<close>: one row under
  the training columns; a ValueError unless there are as many columns as values.
\<close>

definition profile_to_predict_df :: "frame \<Rightarrow> form \<Rightarrow> error + frame" where
  "profile_to_predict_df train f =
     (if length (cols train) \<noteq> length (profile_to_predict f) then Inl ValueError
      else Inr \<lparr>index = [0],
                cols = map (\<lambda>(c, v). (fst c, [v])) (zip (cols train) (profile_to_predict f))\<rparr>)"

text \<open>
  \<^verbatim>\<open>pd.concat([a, b], ignore_index=True)\<close> for two frames with the same columns in
  the same order: the rows of \<open>b\<close> after those of \<open>a\<close>, labelled afresh from 0.
\<close>

definition concat_rows :: "frame \<Rightarrow> frame \<Rightarrow> frame" where
  "concat_rows a b =
     \<lparr>index = [0..<length (index a) + length (index b)],
      cols = map (\<lambda>(c, d). (fst c, snd c @ snd d)) (zip (cols a) (cols b))\<rparr>"




text \<open>The frame handed to the model, from the training frame and the form.\<close>

definition train_copy_with_profile_to_pred :: "frame \<Rightarrow> form \<Rightarrow> error + frame" where
  "train_copy_with_profile_to_pred train f =
     (case profile_to_predict_df train f of
        Inl e \<Rightarrow> Inl e
      | Inr q \<Rightarrow> Inr (concat_rows train q))"



text \<open>The form as it opens: every widget at its default.\<close>

definition form_default :: form where
  "form_default =
     \<lparr>input_gender = ''Male'', input_age = 40, input_income = 2500, income_stab = ''Low'',
      input_professions = ''Working'', location = ''Semi-Urban'', input_current_loan_amt = 0,
      exp_type_one = ''No'', exp_type_two = ''No'', dependents_count = 0, credit_score = 740,
      loan_default_input = ''No'', cc_status_input = ''Active'', property_age_slider = 5,
      prop_price = 0, property_type_input = 1, prop_location = ''Semi-Urban'',
      co_applicant = ''No'', loan_amount_req = 0\<rparr>"

text \<open>The four raw records with the default query appended.\<close>

definition df_raw_query :: frame where
  "df_raw_query =
     \<lparr>index = [0, 1, 2, 3, 4],
      cols = [(''Customer ID'', [Str ''C-1'', Str ''C-2'', Str ''C-3'', Str ''C-4'', Str '''']),
              (''Name'', [Str ''Ann'', Str ''Bob'', Str ''Cyd'', Str ''Dee'', Str '''']),
              (''Gender'', [Str ''F'', NaN, Str ''F'', Str ''M'', Str ''M'']),
              (''Age'', [Num 30, Num 40, Num 50, Num 60, Num 40]),
              (''Income (USD)'', [Num 1000, NaN, Num 2000, Num 3000, Num 2500]),
              (''Income Stability'', [Str ''Low'', Str ''Low'', Str ''High'', Str ''Low'', Str ''Low'']),
              (''Profession'',
                 [Str ''Working'', Str ''Student'', Str ''Working'', Str ''Pensioner'', Str ''Working'']),
              (''Type of Employment'', [Str ''Sales'', NaN, Str ''Core'', NaN, Str '''']),
              (''Location'', [Str ''Rural'', Str ''Urban'', Str ''Rural'', Str ''Urban'', Str ''Semi-Urban'']),
              (''Loan Amount Request (USD)'', [Num 5000, Num 6000, Num 7000, Num 8000, Num 0]),
              (''Current Loan Expenses (USD)'', [Num 100, Num 200, Num (- 999), Num 400, Num 0]),
              (''Expense Type 1'', [Str ''N'', Str ''Y'', Str ''N'', Str ''N'', Str ''N'']),
              (''Expense Type 2'', [Str ''Y'', Str ''Y'', Str ''N'', Str ''Y'', Str ''N'']),
              (''Dependents'', [Num 1, Num 2, NaN, Num 2, Num 0]),
              (''Credit Score'', [Num 700, Num 710, Num 720, NaN, Num 740]),
              (''No. of Defaults'', [Num 0, Num 0, Num 1, Num 0, Num 0]),
              (''Has Active Credit Card'',
                 [Str ''Active'', NaN, Str ''Inactive'', Str ''Active'', Str ''Active'']),
              (''Property ID'', [Num 11, Num 12, Num 13, Num 14, Num 0]),
              (''Property Age'', [Num 1000, Num 1100, Num 2000, Num 3000, Num 1826.25]),
              (''Property Type'', [Num 1, Num 2, Num 3, Num 4, Num 1]),
              (''Property Location'',
                 [Str ''Rural'', Str ''Rural'', Str ''Urban'', Str ''Urban'', Str ''Semi-Urban'']),
              (''Co-Applicant'', [Num 1, Num (- 999), Num 0, Num 1, Num 0]),
              (''Property Price'', [Num 9000, Num 9500, Num 9900, Num (- 999), Num 0]),
              (''Loan Sanction Amount (USD)'', [Num 4000, Num 3000, NaN, Num 0, Num 0])]\<rparr>"




chapter \<open>Properties\<close>

section \<open>Columns: reading and overwriting\<close>

lemma columns_apply_to_columns [simp]: "columns (apply_to_columns fts f df) = columns df"
  by (simp add: apply_to_columns_def columns_def comp_def case_prod_beta)

lemma index_apply_to_columns [simp]: "index (apply_to_columns fts f df) = index df"
  by (simp add: apply_to_columns_def)

lemma apply_to_columns_Nil [simp]: "apply_to_columns [] f df = df"
  by (simp add: apply_to_columns_def case_prod_beta)


lemma get_column_present:
  "ft \<in> set (columns df) \<Longrightarrow> \<exists>xs. get_column df ft = Inr xs"
  unfolding get_column_def columns_def
  by (cases "map_of (cols df) ft") (auto simp: map_of_eq_None_iff)











section \<open>Sentinel replacement\<close>



section \<open>The order of the pipeline\<close>

lemma then_step_Inl [simp]: "then_step (Inl e) t = Inl e"
  by (simp add: then_step_def)

lemma then_step_assoc_out:
  "(case then_step r t of Inl e \<Rightarrow> Inl e | Inr (d, out) \<Rightarrow> Inr (d, pre @ out)) =
   then_step (case r of Inl e \<Rightarrow> Inl e | Inr (d, out) \<Rightarrow> Inr (d, pre @ out)) t"
  by (auto simp: then_step_def split: sum.splits prod.splits)

lemma Pipeline_snoc:
  "Pipeline_fit_transform (steps @ [(name, t)]) df = then_step (Pipeline_fit_transform steps df) t"
proof (induction steps arbitrary: df)
  case Nil
  then show ?case by (simp add: then_step_def split: sum.splits prod.splits)
next
  case (Cons s steps)
  obtain n u where s: "s = (n, u)" by (cases s)
  show ?case
  proof (cases "u df")
    case (Inl e)
    then show ?thesis by (simp add: s)
  next
    case (Inr p)
    obtain d out where p: "p = (d, out)" by (cases p)
    show ?thesis
      using Inr Cons.IH[of d]
      by (simp add: s p then_step_def split: sum.splits prod.splits)
  qed
qed

text \<open>
  Claim C1. \<open>full_pipeline\<close> applies the eight transforms in the fixed order drop
  features, outlier remover, drop uncommon profession, missing value imputer, -999 value
  imputer, skewness handler, min max scaler, one hot encoder, each on what the step before
  returned; an exception of a step ends the run.
\<close>

theorem full_pipeline_order:
  "full_pipeline fmt df =
     then_step (then_step (then_step (then_step (then_step (then_step (then_step
       (DropFeatures_transform df)
       OutlierImputer_transform)
       DropUncommonProfession_transform)
       MissingValueImputer_transform)
       ValueImputer_transform)
       SkewnessHandler_transform)
       MinMaxWithFeatNames_transform)
       (OneHotWithFeatNames_transform fmt)"
proof -
  have first: "Pipeline_fit_transform [(n, t)] d = t d" for n t d
    by (simp split: sum.splits prod.splits)
  show ?thesis
    unfolding full_pipeline_def
    using Pipeline_snoc[of "[a, b, c, d, e, f, g]" for a b c d e f g]
          Pipeline_snoc[of "[a, b, c, d, e, f]" for a b c d e f]
          Pipeline_snoc[of "[a, b, c, d, e]" for a b c d e]
          Pipeline_snoc[of "[a, b, c, d]" for a b c d]
          Pipeline_snoc[of "[a, b, c]" for a b c]
          Pipeline_snoc[of "[a, b]" for a b]
          Pipeline_snoc[of "[a]" for a]
          first
    by (simp del: Pipeline_fit_transform.simps)
qed

section \<open>Schema mismatch\<close>

text \<open>
  Claim C2. A transform whose declared columns are not all present returns its input and
  prints a diagnostic (the eight lemmas after the theorem). The claim also says that no
  transform raises when the target column is absent while the declared ones are present:
  MissingValueImputer checks its nine declared columns only and then drops the rows with a
  missing target, which is a KeyError on a frame without that column.
\<close>

theorem MissingValueImputer_raises_without_target:
  "issubset (mode_imputed_ft @ median_imputed_ft) (columns df_no_target) \<and>
   target \<notin> set (columns df_no_target) \<and>
   MissingValueImputer_transform df_no_target = Inl KeyError"
  by (simp add: MissingValueImputer_transform_def issubset_def mode_imputed_ft_def
      median_imputed_ft_def columns_def df_no_target_def target_def dropna_subset_def
      get_column_def)

lemma DropFeatures_mismatch:
  "\<not> issubset feature_to_drop (columns df) \<Longrightarrow> DropFeatures_transform df = Inr (df, [msg_features])"
  by (simp add: DropFeatures_transform_def)

lemma OutlierImputer_mismatch:
  "\<not> issubset feat_with_outliers (columns df) \<Longrightarrow>
   OutlierImputer_transform df = Inr (df, [msg_features])"
  by (simp add: OutlierImputer_transform_def)

lemma DropUncommonProfession_mismatch:
  "''Profession'' \<notin> set (columns df) \<Longrightarrow>
   DropUncommonProfession_transform df = Inr (df, [''Profession feature is not in the dataframe''])"
  by (simp add: DropUncommonProfession_transform_def)

lemma MissingValueImputer_mismatch:
  "\<not> issubset (mode_imputed_ft @ median_imputed_ft) (columns df) \<Longrightarrow>
   MissingValueImputer_transform df = Inr (df, [msg_features])"
  by (simp add: MissingValueImputer_transform_def)

lemma ValueImputer_mismatch:
  "\<not> issubset feat_with_999_val (columns df) \<Longrightarrow>
   ValueImputer_transform df = Inr (df, [msg_features])"
  by (simp add: ValueImputer_transform_def)

lemma SkewnessHandler_mismatch:
  "\<not> issubset col_with_skewness (columns df) \<Longrightarrow>
   SkewnessHandler_transform df = Inr (df, [''One or more skewed columns are not found''])"
  by (simp add: SkewnessHandler_transform_def)

lemma MinMaxWithFeatNames_mismatch:
  "\<not> issubset min_max_scaler_ft (columns df) \<Longrightarrow>
   MinMaxWithFeatNames_transform df = Inr (df, [msg_features])"
  by (simp add: MinMaxWithFeatNames_transform_def)

lemma OneHotWithFeatNames_mismatch:
  "\<not> issubset one_hot_enc_ft (columns df) \<Longrightarrow>
   OneHotWithFeatNames_transform fmt df = Inr (df, [msg_features])"
  by (simp add: OneHotWithFeatNames_transform_def)

section \<open>Row selection\<close>



section \<open>Outlier removal\<close>





lemma get_column_length:
  "wf_frame df \<Longrightarrow> get_column df ft = Inr xs \<Longrightarrow> length xs = length (index df)"
  by (auto simp: wf_frame_def list_all_iff get_column_def split: option.splits dest!: map_of_SomeD)








section \<open>Min-max normalization\<close>












section \<open>One-hot encoding\<close>

lemma set_nums: "set (nums xs) = {x. Num x \<in> set xs}"
  by (induction xs rule: nums.induct) auto

lemma set_strs: "set (strs xs) = {s. Str s \<in> set xs}"
  by (induction xs rule: strs.induct) auto

lemma categories_set:
  assumes "categories xs = Inr cats"
  shows "set cats = set xs"
proof -
  have c: "cats = map Num (sort (remdups (nums xs))) @ map Str (sort (remdups (strs xs)))
                  @ (if NaN \<in> set xs then [NaN] else [])"
    using assms by (simp add: categories_def split: if_splits)
  have "c \<in> set cats \<longleftrightarrow> c \<in> set xs" for c
    by (cases c) (auto simp: c set_nums set_strs)
  then show ?thesis by blast
qed

lemma categories_distinct:
  assumes "categories xs = Inr cats"
  shows "distinct cats"
proof -
  have c: "cats = map Num (sort (remdups (nums xs))) @ map Str (sort (remdups (strs xs)))
                  @ (if NaN \<in> set xs then [NaN] else [])"
    using assms by (simp add: categories_def split: if_splits)
  show ?thesis
    unfolding c by (auto simp: distinct_map inj_on_def)
qed

lemma categories_uniform:
  "\<not> (list_ex is_num xs \<and> list_ex is_str xs) \<Longrightarrow> \<exists>cats. categories xs = Inr cats"
  by (simp add: categories_def)

lemma filter_eq_distinct_length:
  "distinct cats \<Longrightarrow> c \<in> set cats \<Longrightarrow> length (filter (\<lambda>cat. c = cat) cats) = 1"
  by (induction cats) (auto simp: filter_empty_conv)

lemma one_hot_group_encodes:
  assumes "categories xs = Inr cats"
  shows "encodes fmt ft xs (one_hot_group fmt ft cats xs)"
proof -
  let ?g = "one_hot_group fmt ft cats xs"
  note s = categories_set[OF assms] and d = categories_distinct[OF assms]
  have len: "length ?g = length (remdups xs)"
    using distinct_card[OF d] by (simp add: one_hot_group_def s length_remdups_card_conv)
  have ind: "list_all (\<lambda>col. list_ex (is_indicator_of fmt ft xs col) xs) ?g"
    using s by (auto simp: one_hot_group_def list_all_iff list_ex_iff is_indicator_of_def
        indicator_def)
  have bin: "list_all (\<lambda>col. list_all (\<lambda>y. y = Num 0 \<or> y = Num 1) (snd col)) ?g"
    by (auto simp: one_hot_group_def list_all_iff indicator_def)
  have one: "ones_at ?g i = 1" if "i < length xs" for i
  proof -
    have "ones_at ?g i = length (filter (\<lambda>cat. xs ! i = cat) cats)"
      using that
      by (simp add: ones_at_def one_hot_group_def filter_map comp_def indicator_def
          cong: filter_cong)
    also have "\<dots> = 1"
      using that s by (intro filter_eq_distinct_length[OF d]) simp
    finally show ?thesis .
  qed
  show ?thesis
    unfolding encodes_def using len ind bin one by (simp add: list_all_iff)
qed

lemma one_hot_enc_groups:
  assumes "set fts \<subseteq> set (columns df)" and "uniform_columns fts df"
  shows "\<exists>groups. one_hot_enc fmt df fts = Inr (concat groups) \<and>
           list_all2 (\<lambda>ft g. case get_column df ft of
                               Inl e \<Rightarrow> False
                             | Inr xs \<Rightarrow> encodes fmt ft xs g) fts groups"
  using assms
proof (induction fts)
  case Nil
  then show ?case by simp
next
  case (Cons ft fts)
  obtain xs where x: "get_column df ft = Inr xs"
    using get_column_present[of ft df] Cons.prems(1) by auto
  obtain cats where c: "categories xs = Inr cats"
    using categories_uniform[of xs] Cons.prems(2) x by (auto simp: uniform_columns_def)
  obtain groups where g: "one_hot_enc fmt df fts = Inr (concat groups)"
    and l: "list_all2 (\<lambda>ft g. case get_column df ft of
                               Inl e \<Rightarrow> False
                             | Inr xs \<Rightarrow> encodes fmt ft xs g) fts groups"
    using Cons.IH Cons.prems by (auto simp: uniform_columns_def)
  have "one_hot_enc fmt df (ft # fts) = Inr (concat (one_hot_group fmt ft cats xs # groups))"
    using x c g by simp
  moreover have "list_all2 (\<lambda>ft g. case get_column df ft of
                               Inl e \<Rightarrow> False
                             | Inr xs \<Rightarrow> encodes fmt ft xs g) (ft # fts)
                   (one_hot_group fmt ft cats xs # groups)"
    using l x one_hot_group_encodes[OF c] by simp
  ultimately show ?case by blast
qed

text \<open>
  Claim C6. On a frame with at least one row that has the eight categorical columns, none
  mixing numbers and strings, OneHotWithFeatNames returns the row labels unchanged and,
  as columns, one group per designated column in the declared order followed by the
  untouched columns in their order; each group encodes its column: one 0/1 indicator
  column per observed category, named \<open><column>_<category>\<close>, as many as the column
  has distinct values, with exactly one 1 at every row.
\<close>

theorem OneHotWithFeatNames_encodes:
  assumes "issubset one_hot_enc_ft (columns df)"
      and "index df \<noteq> []"
      and "uniform_columns one_hot_enc_ft df"
  shows "\<exists>out groups.
           OneHotWithFeatNames_transform fmt df = Inr (out, []) \<and>
           index out = index df \<and>
           cols out = concat groups @ filter (\<lambda>(n, xs). n \<notin> set one_hot_enc_ft) (cols df) \<and>
           list_all2 (\<lambda>ft g. case get_column df ft of
                               Inl e \<Rightarrow> False
                             | Inr xs \<Rightarrow> encodes fmt ft xs g) one_hot_enc_ft groups"
proof -
  obtain groups where g: "one_hot_enc fmt df one_hot_enc_ft = Inr (concat groups)"
    and l: "list_all2 (\<lambda>ft g. case get_column df ft of
                               Inl e \<Rightarrow> False
                             | Inr xs \<Rightarrow> encodes fmt ft xs g) one_hot_enc_ft groups"
    using one_hot_enc_groups[of one_hot_enc_ft df fmt] assms by (auto simp: issubset_def)
  have "OneHotWithFeatNames_transform fmt df =
          Inr (concat_with_rest df (concat groups) one_hot_enc_ft, [])"
    using assms(1,2) g by (simp add: OneHotWithFeatNames_transform_def)
  then show ?thesis
    using l by (auto simp: concat_with_rest_def)
qed

lemma df_cat_run:
  "OneHotWithFeatNames_transform fmt df_cat = Inr (df_cat_encoded, [])"
  by (simp add: OneHotWithFeatNames_transform_def issubset_def one_hot_enc_ft_def columns_def
      df_cat_def df_cat_encoded_def get_column_def categories_def one_hot_group_def
      indicator_def concat_with_rest_def)

theorem OneHotWithFeatNames_encodes_witness:
  "issubset one_hot_enc_ft (columns df_cat) \<and> index df_cat \<noteq> [] \<and>
   uniform_columns one_hot_enc_ft df_cat \<and>
   OneHotWithFeatNames_transform (\<lambda>x. ''num'') df_cat = Inr (df_cat_encoded, []) \<and>
   (\<exists>groups.
      cols df_cat_encoded =
        concat groups @ filter (\<lambda>(n, xs). n \<notin> set one_hot_enc_ft) (cols df_cat) \<and>
      list_all2 (\<lambda>ft g. case get_column df_cat ft of
                          Inl e \<Rightarrow> False
                        | Inr xs \<Rightarrow> encodes (\<lambda>x. ''num'') ft xs g) one_hot_enc_ft groups)"
proof -
  have a: "issubset one_hot_enc_ft (columns df_cat)"
    by (simp add: issubset_def one_hot_enc_ft_def columns_def df_cat_def)
  have b: "index df_cat \<noteq> []" by (simp add: df_cat_def)
  have c: "uniform_columns one_hot_enc_ft df_cat"
    by (simp add: uniform_columns_def one_hot_enc_ft_def get_column_def df_cat_def)
  show ?thesis
    using a b c OneHotWithFeatNames_encodes[OF a b c, of "\<lambda>x. ''num''"]
    by (auto simp: df_cat_run)
qed

section \<open>Row selection and the shape of a frame\<close>

lemma columns_filter_rows [simp]: "columns (filter_rows m df) = columns df"
  by (simp add: filter_rows_def columns_def comp_def case_prod_beta)

lemma index_filter_rows [simp]: "index (filter_rows m df) = select m (index df)"
  by (simp add: filter_rows_def)



lemma select_Nil [simp]: "select m [] = []" "select [] xs = []"
  by (simp_all add: select_def)

lemma select_Cons [simp]:
  "select (b # m) (x # xs) = (if b then x # select m xs else select m xs)"
  by (simp add: select_def)




lemma select_snoc:
  "length m = length xs \<Longrightarrow>
   select (m @ [b]) (xs @ [x]) = (if b then select m xs @ [x] else select m xs)"
  by (simp add: select_def)

lemma select_last:
  assumes "length m = length xs" and "xs \<noteq> []" and "last m"
  shows "select m xs \<noteq> [] \<and> last (select m xs) = last xs"
proof -
  obtain xs' x where xs: "xs = xs' @ [x]" using assms(2) by (meson rev_exhaust)
  obtain m' b where m: "m = m' @ [b]" using assms(1,2) by (metis length_0_conv rev_exhaust)
  show ?thesis using assms select_snoc[of m' xs' b x] by (simp add: xs m)
qed






lemma index_drop_columns [simp]: "index (drop_columns fts df) = index df"
  by (simp add: drop_columns_def)





section \<open>The loops of MissingValueImputer\<close>

lemma distinct_columns_apply [simp]:
  "distinct (columns (apply_to_columns fts f df)) = distinct (columns df)"
  by simp



section \<open>Mode and median\<close>


lemma set_sort_cells [simp]: "set (sort_cells cs) = set cs"
proof -
  have n: "list_all is_num cs \<Longrightarrow> Num ` set (nums cs) = set cs"
    by (induction cs rule: nums.induct) auto
  have s: "list_all is_str cs \<Longrightarrow> Str ` set (strs cs) = set cs"
    by (induction cs rule: strs.induct) auto
  show ?thesis using n s by (simp add: sort_cells_def)
qed





lemma fillna_NaN [simp]: "fillna NaN xs = xs"
  by (simp add: fillna_def map_idI)


lemma length_fillna [simp]: "length (fillna v xs) = length xs"
  by (simp add: fillna_def)

lemma length_mode_fill [simp]: "length (mode_fill xs) = length xs"
  by (simp add: mode_fill_def split: list.splits)

lemma length_median_fill [simp]: "length (median_fill xs) = length xs"
  by (simp add: median_fill_def split: sum.splits)








section \<open>What MissingValueImputer returns\<close>






section \<open>Idempotence of the imputers\<close>


















section \<open>The query row and the drop of rows without target\<close>

lemma profile_target_placeholder:
  "length (profile_to_predict f) = 24 \<and> last (profile_to_predict f) = Num 0"
  by (simp add: profile_to_predict_def)

lemma index_set_column [simp]: "index (set_column ft vs df) = index df"
  by (simp add: set_column_def)

lemma index_fill_modes: "fill_modes fts df = Inr d \<Longrightarrow> index d = index df"
  by (induction fts arbitrary: df) (auto split: sum.splits list.splits)

lemma index_fill_medians: "fill_medians fts df = Inr d \<Longrightarrow> index d = index df"
  by (induction fts arbitrary: df) (auto split: sum.splits)

lemma index_MissingValueImputer:
  assumes "MissingValueImputer_transform df = Inr (d, out)"
  shows "index d = index df \<or>
         (\<exists>tg. get_column df target = Inr tg \<and>
               index d = select (map (\<lambda>c. c \<noteq> NaN) tg) (index df))"
proof (cases "issubset (mode_imputed_ft @ median_imputed_ft) (columns df)")
  case False
  then show ?thesis using assms by (simp add: MissingValueImputer_transform_def)
next
  case True
  then obtain tg df1 df2 where tg: "get_column df target = Inr tg"
    and 1: "df1 = filter_rows (map (\<lambda>c. c \<noteq> NaN) tg) df"
    and 2: "fill_modes mode_imputed_ft df1 = Inr df2"
    and 3: "fill_medians median_imputed_ft df2 = Inr d"
    using assms
    by (auto simp: MissingValueImputer_transform_def dropna_subset_def split: sum.splits)
  show ?thesis
    using tg index_fill_modes[OF 2] index_fill_medians[OF 3] by (simp add: 1)
qed

text \<open>
  Claim C3. The query record is built with the number 0 as target placeholder, which the
  drop of rows without target does not take for a missing value: on any well-formed frame
  whose last row carries the placeholder of a query record as target, MissingValueImputer,
  when it returns, keeps that last row.
\<close>

theorem MissingValueImputer_keeps_query_row:
  assumes "wf_frame df"
      and "index df \<noteq> []"
      and "get_column df target = Inr tg"
      and "last tg = last (profile_to_predict f)"
      and "MissingValueImputer_transform df = Inr (d, out)"
  shows "last (profile_to_predict f) = Num 0 \<and> index d \<noteq> [] \<and>
         last (index d) = last (index df)"
proof -
  have p: "last (profile_to_predict f) = Num 0" using profile_target_placeholder by simp
  let ?m = "map (\<lambda>c. c \<noteq> NaN) tg"
  have len: "length ?m = length (index df)"
    using get_column_length[OF assms(1,3)] by simp
  have "tg \<noteq> []" using len assms(2) by auto
  then have "last ?m" using assms(4) p by (simp add: last_map)
  from select_last[OF len assms(2) this] index_MissingValueImputer[OF assms(5)] assms(2,3) p
  show ?thesis by auto
qed

lemma df_raw_query_built: "train_copy_with_profile_to_pred df_raw form_default = Inr df_raw_query"
  by (simp add: train_copy_with_profile_to_pred_def profile_to_predict_df_def
      profile_to_predict_def concat_rows_def df_raw_def form_default_def df_raw_query_def
      yes_no_dict_def property_age_def upt_rec)

lemma df_raw_query_MissingValueImputer:
  "\<exists>d. MissingValueImputer_transform df_raw_query = Inr (d, []) \<and> index d = [0, 1, 3, 4]"
  by (simp add: MissingValueImputer_transform_def issubset_def mode_imputed_ft_def
      median_imputed_ft_def columns_def df_raw_query_def dropna_subset_def get_column_def
      target_def filter_rows_def set_column_def series_mode_def series_median_def
      sort_cells_def fillna_def has_str_def Let_def)

theorem MissingValueImputer_keeps_query_row_witness:
  "train_copy_with_profile_to_pred df_raw form_default = Inr df_raw_query \<and>
   wf_frame df_raw_query \<and> index df_raw_query \<noteq> [] \<and>
   get_column df_raw_query target = Inr [Num 4000, Num 3000, NaN, Num 0, Num 0] \<and>
   last [Num 4000, Num 3000, NaN, Num 0, Num 0] = last (profile_to_predict form_default) \<and>
   (\<exists>d. MissingValueImputer_transform df_raw_query = Inr (d, []) \<and>
        index d = [0, 1, 3, 4] \<and> last (index d) = last (index df_raw_query))"
proof -
  have a: "wf_frame df_raw_query" by (simp add: wf_frame_def df_raw_query_def)
  have b: "index df_raw_query \<noteq> []" by (simp add: df_raw_query_def)
  have c: "get_column df_raw_query target = Inr [Num 4000, Num 3000, NaN, Num 0, Num 0]"
    by (simp add: get_column_def df_raw_query_def target_def)
  have d: "last [Num 4000, Num 3000, NaN, Num 0, Num 0] = last (profile_to_predict form_default)"
    by (simp add: profile_to_predict_def)
  obtain r where r: "MissingValueImputer_transform df_raw_query = Inr (r, [])"
    and i: "index r = [0, 1, 3, 4]"
    using df_raw_query_MissingValueImputer by blast
  show ?thesis
    using df_raw_query_built a b c d r i MissingValueImputer_keeps_query_row[OF a b c d r]
    by simp
qed

section \<open>Survival of the last row\<close>











lemma index_set_columns [simp]: "index (set_columns fts vss df) = index df"
  by (induction fts vss df rule: set_columns.induct) auto





section \<open>The last row of the pipeline output\<close>




section \<open>The feature vector handed to the model\<close>











end
